theory Spec2Isabelle
  imports Complex_Main
begin

section \<open>Data model\<close>

text \<open>
  The source computes with Python floats and \<open>mathutils.Vector\<close>. The embedding
  reads every float as a real number, so all arithmetic is exact; the one float that is
  not a real, \<open>float('inf')\<close>, gets a constructor of its own where the source stores it.
\<close>

datatype Vector = Vector (vx: real) (vy: real) (vz: real)

instantiation Vector :: "{plus, minus}"
begin

definition plus_Vector :: "Vector \<Rightarrow> Vector \<Rightarrow> Vector" where
  "plus_Vector a b = Vector (vx a + vx b) (vy a + vy b) (vz a + vz b)"

definition minus_Vector :: "Vector \<Rightarrow> Vector \<Rightarrow> Vector" where
  "minus_Vector a b = Vector (vx a - vx b) (vy a - vy b) (vz a - vz b)"

instance ..

end

text \<open>\<open>k * v\<close> and \<open>v * k\<close> with a float \<open>k\<close>.\<close>

definition smul :: "real \<Rightarrow> Vector \<Rightarrow> Vector" where
  "smul k v = Vector (k * vx v) (k * vy v) (k * vz v)"

text \<open>\<open>v / k\<close> with a float \<open>k\<close>.\<close>

definition sdiv :: "Vector \<Rightarrow> real \<Rightarrow> Vector" where
  "sdiv v k = Vector (vx v / k) (vy v / k) (vz v / k)"

text \<open>\<open>a * b\<close> with two vectors: the dot product.\<close>

definition dot :: "Vector \<Rightarrow> Vector \<Rightarrow> real" where
  "dot a b = vx a * vx b + vy a * vy b + vz a * vz b"

definition cross :: "Vector \<Rightarrow> Vector \<Rightarrow> Vector" where
  "cross a b = Vector (vy a * vz b - vz a * vy b)
                      (vz a * vx b - vx a * vz b)
                      (vx a * vy b - vy a * vx b)"

text \<open>\<open>v.length\<close>.\<close>

definition vlength :: "Vector \<Rightarrow> real" where
  "vlength v = sqrt (dot v v)"

text \<open>\<open>v[i]\<close> and \<open>v[i] = r\<close>, for the indices \<open>range(0, 3)\<close> the source uses.\<close>

fun vget :: "Vector \<Rightarrow> nat \<Rightarrow> real" where
  "vget v 0 = vx v"
| "vget v (Suc 0) = vy v"
| "vget v (Suc (Suc n)) = vz v"

fun vset :: "Vector \<Rightarrow> nat \<Rightarrow> real \<Rightarrow> Vector" where
  "vset v 0 r = Vector r (vy v) (vz v)"
| "vset v (Suc 0) r = Vector (vx v) r (vz v)"
| "vset v (Suc (Suc n)) r = Vector (vx v) (vy v) r"

record Plane =
  normal :: Vector
  distance :: real

record Circle =
  plane :: Plane
  center :: Vector
  radius :: real

record AABB =
  center :: Vector
  dimensions :: Vector

text \<open>
  A cubic is the list of its four control points,
  \<open>[prev.co, prev.handle_right, next.handle_left, next.co]\<close> in \<open>bezierSegments\<close>;
  the functions below read \<open>points[0]\<close> to \<open>points[3]\<close> only.
\<close>

datatype Bezier = Bezier (cp0: Vector) (cp1: Vector) (cp2: Vector) (cp3: Vector)

definition points_list :: "Bezier \<Rightarrow> Vector list" where
  "points_list c = [cp0 c, cp1 c, cp2 c, cp3 c]"

datatype error = IndexError | UnboundLocalError | ZeroDivisionError

section \<open>Circle of a triangle\<close>

definition circleOfTriangle :: "Vector \<Rightarrow> Vector \<Rightarrow> Vector \<Rightarrow> Circle option" where
  "circleOfTriangle a b c =
     (let dirBA = a - b;
          dirCB = b - c;
          dirAC = c - a;
          normal = cross dirBA dirCB;
          lengthBA = vlength dirBA;
          lengthCB = vlength dirCB;
          lengthAC = vlength dirAC;
          lengthN = vlength normal
      in if lengthN = 0 then None
         else
           let factor = - 1 / (2 * lengthN * lengthN);
               alpha = dot dirBA dirAC * (lengthCB * lengthCB * factor);
               beta = dot dirBA dirCB * (lengthAC * lengthAC * factor);
               gamma = dot dirAC dirCB * (lengthBA * lengthBA * factor);
               center = smul alpha a + smul beta b + smul gamma c;
               radius = (lengthBA * lengthCB * lengthAC) / (2 * lengthN);
               plane = \<lparr>normal = sdiv normal lengthN, distance = dot center normal\<rparr>
           in Some \<lparr>plane = plane, center = center, radius = radius\<rparr>)"

section \<open>Axis-aligned bounding boxes\<close>

text \<open>The body of the inner loop \<open>for i in range(0, 3)\<close> of \<open>aabbOfPoints\<close>.\<close>

definition aabb_axis :: "Vector \<Rightarrow> Vector \<times> Vector \<Rightarrow> nat \<Rightarrow> Vector \<times> Vector" where
  "aabb_axis point mm i =
     (let mn = fst mm; mx = snd mm;
          mn' = (if vget mn i > vget point i then vset mn i (vget point i) else mn);
          mx' = (if vget mx i < vget point i then vset mx i (vget point i) else mx)
      in (mn', mx'))"

text \<open>The body of the outer loop \<open>for point in points\<close>.\<close>

definition aabb_point :: "Vector \<times> Vector \<Rightarrow> Vector \<Rightarrow> Vector \<times> Vector" where
  "aabb_point mm point = foldl (aabb_axis point) mm [0, 1, 2]"

definition aabbOfPoints :: "Vector list \<Rightarrow> error + AABB" where
  "aabbOfPoints points =
     (case points of
        [] \<Rightarrow> Inl IndexError
      | p # _ \<Rightarrow>
          (let mm = foldl aabb_point (p, p) points; mn = fst mm; mx = snd mm
           in Inr \<lparr>center = smul 0.5 (mx + mn), dimensions = mx - mn\<rparr>))"

text \<open>The loop of \<open>aabbIntersectionTest\<close> over the axes still to test.\<close>

fun aabb_test_axes :: "AABB \<Rightarrow> AABB \<Rightarrow> real \<Rightarrow> nat list \<Rightarrow> bool" where
  "aabb_test_axes a b tollerance [] = True"
| "aabb_test_axes a b tollerance (i # is) =
     (if \<bar>vget (center a) i - vget (center b) i\<bar>
           > vget (dimensions a) i + vget (dimensions b) i + tollerance
      then False
      else aabb_test_axes a b tollerance is)"

definition aabbIntersectionTest :: "AABB \<Rightarrow> AABB \<Rightarrow> real \<Rightarrow> bool" where
  "aabbIntersectionTest a b tollerance = aabb_test_axes a b tollerance [0, 1, 2]"

section \<open>Evaluation of a cubic\<close>

definition bezierPointAt :: "Bezier \<Rightarrow> real \<Rightarrow> Vector" where
  "bezierPointAt points t =
     (let s = 1 - t
      in smul (s * s * s) (cp0 points) + smul (3 * s * s * t) (cp1 points)
         + smul (3 * s * t * t) (cp2 points) + smul (t * t * t) (cp3 points))"

definition bezierTangentAt :: "Bezier \<Rightarrow> real \<Rightarrow> Vector" where
  "bezierTangentAt points t =
     (let s = 1 - t
      in smul (s * s) (cp1 points - cp0 points) + smul (2 * s * t) (cp2 points - cp1 points)
         + smul (t * t) (cp3 points - cp2 points))"

definition bezierSliceFromTo :: "Bezier \<Rightarrow> real \<Rightarrow> real \<Rightarrow> Bezier" where
  "bezierSliceFromTo points minParam maxParam =
     (let fromP = bezierPointAt points minParam;
          fromT = bezierTangentAt points minParam;
          toP = bezierPointAt points maxParam;
          toT = bezierTangentAt points maxParam;
          paramDiff = maxParam - minParam
      in Bezier fromP (fromP + smul paramDiff fromT) (toP - smul paramDiff toT) toP)"

section \<open>Evaluation of a cubic with rounding\<close>

text \<open>
  Where a property depends on the rounding of the floats, the same functions are read a
  second time with a rounding after every arithmetic operation: \<open>rs\<close> rounds a result
  that is a Python float, \<open>rv\<close> rounds a component of a \<open>mathutils.Vector\<close>. With
  the identity for both, this is the exact reading above.
\<close>

text \<open>\<open>a + b\<close> and \<open>a - b\<close> with two vectors.\<close>

definition vadd_fl :: "(real \<Rightarrow> real) \<Rightarrow> Vector \<Rightarrow> Vector \<Rightarrow> Vector" where
  "vadd_fl rv a b = Vector (rv (vx a + vx b)) (rv (vy a + vy b)) (rv (vz a + vz b))"

definition vsub_fl :: "(real \<Rightarrow> real) \<Rightarrow> Vector \<Rightarrow> Vector \<Rightarrow> Vector" where
  "vsub_fl rv a b = Vector (rv (vx a - vx b)) (rv (vy a - vy b)) (rv (vz a - vz b))"

text \<open>\<open>k * v\<close> and \<open>v * k\<close>: the float \<open>k\<close> is converted to a component first.\<close>

definition smul_fl :: "(real \<Rightarrow> real) \<Rightarrow> real \<Rightarrow> Vector \<Rightarrow> Vector" where
  "smul_fl rv k v = Vector (rv (rv k * vx v)) (rv (rv k * vy v)) (rv (rv k * vz v))"

definition bezierPointAt_fl :: "(real \<Rightarrow> real) \<Rightarrow> (real \<Rightarrow> real) \<Rightarrow> Bezier \<Rightarrow> real \<Rightarrow> Vector" where
  "bezierPointAt_fl rv rs points t =
     (let s = rs (1 - t)
      in vadd_fl rv (vadd_fl rv (vadd_fl rv
           (smul_fl rv (rs (rs (s * s) * s)) (cp0 points))
           (smul_fl rv (rs (rs (rs (3 * s) * s) * t)) (cp1 points)))
           (smul_fl rv (rs (rs (rs (3 * s) * t) * t)) (cp2 points)))
           (smul_fl rv (rs (rs (t * t) * t)) (cp3 points)))"

definition bezierTangentAt_fl :: "(real \<Rightarrow> real) \<Rightarrow> (real \<Rightarrow> real) \<Rightarrow> Bezier \<Rightarrow> real \<Rightarrow> Vector" where
  "bezierTangentAt_fl rv rs points t =
     (let s = rs (1 - t)
      in vadd_fl rv (vadd_fl rv
           (smul_fl rv (rs (s * s)) (vsub_fl rv (cp1 points) (cp0 points)))
           (smul_fl rv (rs (rs (2 * s) * t)) (vsub_fl rv (cp2 points) (cp1 points))))
           (smul_fl rv (rs (t * t)) (vsub_fl rv (cp3 points) (cp2 points))))"

definition bezierSliceFromTo_fl ::
  "(real \<Rightarrow> real) \<Rightarrow> (real \<Rightarrow> real) \<Rightarrow> Bezier \<Rightarrow> real \<Rightarrow> real \<Rightarrow> Bezier" where
  "bezierSliceFromTo_fl rv rs points minParam maxParam =
     (let fromP = bezierPointAt_fl rv rs points minParam;
          fromT = bezierTangentAt_fl rv rs points minParam;
          toP = bezierPointAt_fl rv rs points maxParam;
          toT = bezierTangentAt_fl rv rs points maxParam;
          paramDiff = rs (maxParam - minParam)
      in Bezier fromP (vadd_fl rv fromP (smul_fl rv paramDiff fromT))
           (vsub_fl rv toP (smul_fl rv paramDiff toT)) toP)"

text \<open>
  Rounding to the nearest float with \<open>p\<close> significant bits, ties to the even
  significand: \<open>fl 24\<close> is the rounding of binary32 and \<open>fl 53\<close> that of binary64,
  both without overflow and underflow. \<open>round_even\<close> rounds to the nearest integer,
  \<open>fl_exponent\<close> finds the \<open>e\<close> with \<open>2 ^ e \<le> x < 2 ^ (e + 1)\<close> by doubling or
  halving \<open>x\<close> at most \<open>fuel\<close> times.
\<close>

definition round_even :: "real \<Rightarrow> int" where
  "round_even y =
     (let f = \<lfloor>y\<rfloor>
      in if y - of_int f < 1/2 then f
         else if 1/2 < y - of_int f then f + 1
         else if even f then f else f + 1)"

fun fl_exponent :: "nat \<Rightarrow> real \<Rightarrow> int" where
  "fl_exponent fuel x =
     (if fuel = 0 then 0
      else if 2 \<le> x then fl_exponent (fuel - 1) (x / 2) + 1
      else if x < 1 then fl_exponent (fuel - 1) (x * 2) - 1
      else 0)"

declare fl_exponent.simps [simp del]

definition fl :: "nat \<Rightarrow> real \<Rightarrow> real" where
  "fl p x =
     (if x = 0 then 0
      else
        (let e = fl_exponent 2200 \<bar>x\<bar>;
             k = int p - 1 - e
         in if 0 \<le> k then of_int (round_even (x * 2 ^ nat k)) / 2 ^ nat k
            else of_int (round_even (x / 2 ^ nat (- k))) * 2 ^ nat (- k)))"


section \<open>Circle of a triangle with rounding\<close>

text \<open>
  \<open>circleOfTriangle\<close> read with a rounding after every operation: the cross product
  and the quotient by a float give vectors, the dot product and the length give Python
  floats.
\<close>

definition cross_fl :: "(real \<Rightarrow> real) \<Rightarrow> Vector \<Rightarrow> Vector \<Rightarrow> Vector" where
  "cross_fl rv a b = Vector (rv (rv (vy a * vz b) - rv (vz a * vy b)))
                            (rv (rv (vz a * vx b) - rv (vx a * vz b)))
                            (rv (rv (vx a * vy b) - rv (vy a * vx b)))"

definition dot_fl :: "(real \<Rightarrow> real) \<Rightarrow> Vector \<Rightarrow> Vector \<Rightarrow> real" where
  "dot_fl rs a b = rs (rs (rs (vx a * vx b) + rs (vy a * vy b)) + rs (vz a * vz b))"

definition vlength_fl :: "(real \<Rightarrow> real) \<Rightarrow> Vector \<Rightarrow> real" where
  "vlength_fl rs v = rs (sqrt (dot_fl rs v v))"

definition sdiv_fl :: "(real \<Rightarrow> real) \<Rightarrow> Vector \<Rightarrow> real \<Rightarrow> Vector" where
  "sdiv_fl rv v k = Vector (rv (vx v / rv k)) (rv (vy v / rv k)) (rv (vz v / rv k))"

definition circleOfTriangle_fl ::
  "(real \<Rightarrow> real) \<Rightarrow> (real \<Rightarrow> real) \<Rightarrow> Vector \<Rightarrow> Vector \<Rightarrow> Vector \<Rightarrow> Circle option" where
  "circleOfTriangle_fl rv rs a b c =
     (let dirBA = vsub_fl rv a b;
          dirCB = vsub_fl rv b c;
          dirAC = vsub_fl rv c a;
          normal = cross_fl rv dirBA dirCB;
          lengthBA = vlength_fl rs dirBA;
          lengthCB = vlength_fl rs dirCB;
          lengthAC = vlength_fl rs dirAC;
          lengthN = vlength_fl rs normal
      in if lengthN = 0 then None
         else
           let factor = rs (- 1 / rs (rs (2 * lengthN) * lengthN));
               alpha = rs (dot_fl rs dirBA dirAC * rs (rs (lengthCB * lengthCB) * factor));
               beta = rs (dot_fl rs dirBA dirCB * rs (rs (lengthAC * lengthAC) * factor));
               gamma = rs (dot_fl rs dirAC dirCB * rs (rs (lengthBA * lengthBA) * factor));
               center = vadd_fl rv (vadd_fl rv (smul_fl rv alpha a) (smul_fl rv beta b))
                          (smul_fl rv gamma c);
               radius = rs (rs (rs (lengthBA * lengthCB) * lengthAC) / rs (2 * lengthN));
               plane = \<lparr>normal = sdiv_fl rv normal lengthN, distance = dot_fl rs center normal\<rparr>
           in Some \<lparr>plane = plane, center = center, radius = radius\<rparr>)"

section \<open>Arc length\<close>

text \<open>
  The state of the loop of \<open>bezierLength\<close> is \<open>(length, prev_value)\<close>; \<open>samples\<close> is a
  Python integer. With \<open>samples = 0\<close> the first iteration divides by zero; with a
  negative \<open>samples\<close> the range is empty.
\<close>

definition bezierLength :: "Bezier \<Rightarrow> real \<Rightarrow> real \<Rightarrow> int \<Rightarrow> error + real" where
  "bezierLength points beginT endT samples =
     (let vec0 = cp1 points - cp0 points;
          vec1 = cp2 points - cp1 points;
          vec2 = cp3 points - cp2 points;
          dot0 = dot vec0 vec0; dot1 = dot vec0 vec1; dot2 = dot vec0 vec2;
          dot3 = dot vec1 vec1; dot4 = dot vec1 vec2; dot5 = dot vec2 vec2;
          factors0 = dot0;
          factors1 = 4 * (dot1 - dot0);
          factors2 = 6 * dot0 + 4 * dot3 + 2 * dot2 - 12 * dot1;
          factors3 = 12 * dot1 + 4 * (dot4 - dot0 - dot2) - 8 * dot3;
          factors4 = dot0 + dot5 + 2 * dot2 + 4 * (dot3 - dot1 - dot4);
          prev_value0 = sqrt (factors4 + factors3 + factors2 + factors1 + factors0)
      in if samples = 0 then Inl ZeroDivisionError
         else
           let body = (\<lambda>st index.
                  let t = beginT + (endT - beginT) * real_of_int index / real_of_int samples;
                      value = sqrt ((((factors4 * t + factors3) * t + factors2) * t + factors1) * t
                                    + factors0)
                  in (fst st + (snd st + value) * 0.5, value));
               final = foldl body (0, prev_value0) [0..samples]
           in Inr (fst final * 3 / real_of_int samples))"

section \<open>Broad phase\<close>

text \<open>
  A candidate is the list \<open>[aMin, aMax, bMin, bMax]\<close>. The list \<open>solutions\<close> is
  passed in and returned extended. \<open>depth\<close> is a natural number: the only call in the
  source passes 8. The four recursive calls of the source give no tolerance, so they run
  with the default of the parameter, \<open>0.001\<close>.
\<close>

type_synonym candidate = "real \<times> real \<times> real \<times> real"

fun bezierIntersectionBroadPhase ::
  "candidate list \<Rightarrow> nat \<Rightarrow> Bezier \<Rightarrow> Bezier \<Rightarrow> real \<Rightarrow> real \<Rightarrow> real \<Rightarrow> real \<Rightarrow> real
     \<Rightarrow> error + candidate list" where
  "bezierIntersectionBroadPhase solutions depth pointsA pointsB aMin aMax bMin bMax tollerance =
     (case aabbOfPoints (points_list (bezierSliceFromTo pointsA aMin aMax)) of
        Inl e \<Rightarrow> Inl e
      | Inr boxA \<Rightarrow>
     (case aabbOfPoints (points_list (bezierSliceFromTo pointsB bMin bMax)) of
        Inl e \<Rightarrow> Inl e
      | Inr boxB \<Rightarrow>
     if aabbIntersectionTest boxA boxB tollerance = False then Inr solutions
     else
       (case depth of
          0 \<Rightarrow> Inr (solutions @ [(aMin, aMax, bMin, bMax)])
        | Suc depth' \<Rightarrow>
            (let aMid = (aMin + aMax) * 0.5;
                 bMid = (bMin + bMax) * 0.5
             in case bezierIntersectionBroadPhase solutions depth' pointsA pointsB
                       aMin aMid bMin bMid 0.001 of
                  Inl e \<Rightarrow> Inl e
                | Inr s1 \<Rightarrow>
               (case bezierIntersectionBroadPhase s1 depth' pointsA pointsB
                       aMin aMid bMid bMax 0.001 of
                  Inl e \<Rightarrow> Inl e
                | Inr s2 \<Rightarrow>
               (case bezierIntersectionBroadPhase s2 depth' pointsA pointsB
                       aMid aMax bMin bMid 0.001 of
                  Inl e \<Rightarrow> Inl e
                | Inr s3 \<Rightarrow>
                  bezierIntersectionBroadPhase s3 depth' pointsA pointsB
                       aMid aMax bMid bMax 0.001))))))"

declare bezierIntersectionBroadPhase.simps [simp del]

section \<open>Narrow phase\<close>

text \<open>
  The state of the \<open>while\<close> loop of \<open>bezierIntersectionNarrowPhase\<close> is the rectangle
  \<open>aMin, aMax, bMin, bMax\<close> and \<open>minDist\<close>, which is unbound (\<open>None\<close>) until the
  body has run once.
\<close>

type_synonym narrow_state = "real \<times> real \<times> real \<times> real \<times> real option"

text \<open>The loop condition.\<close>

definition narrow_cond :: "real \<Rightarrow> narrow_state \<Rightarrow> bool" where
  "narrow_cond tollerance st =
     (case st of (aMin, aMax, bMin, bMax, minDist) \<Rightarrow>
        (aMax - aMin > tollerance) \<or> (bMax - bMin > tollerance))"

text \<open>The loop body.\<close>

definition narrow_body :: "Bezier \<Rightarrow> Bezier \<Rightarrow> narrow_state \<Rightarrow> narrow_state" where
  "narrow_body pointsA pointsB st =
     (case st of (aMin, aMax, bMin, bMax, minDist0) \<Rightarrow>
        (let aMid = (aMin + aMax) * 0.5;
             bMid = (bMin + bMax) * 0.5;
             a1 = bezierPointAt pointsA ((aMin + aMid) * 0.5);
             a2 = bezierPointAt pointsA ((aMid + aMax) * 0.5);
             b1 = bezierPointAt pointsB ((bMin + bMid) * 0.5);
             b2 = bezierPointAt pointsB ((bMid + bMax) * 0.5);
             a1b1Dist = vlength (a1 - b1);
             a2b1Dist = vlength (a2 - b1);
             a1b2Dist = vlength (a1 - b2);
             a2b2Dist = vlength (a2 - b2);
             minDist = min a1b1Dist (min a2b1Dist (min a1b2Dist a2b2Dist))
         in if a1b1Dist = minDist then (aMin, aMid, bMin, bMid, Some minDist)
            else if a2b1Dist = minDist then (aMid, aMax, bMin, bMid, Some minDist)
            else if a1b2Dist = minDist then (aMin, aMid, bMid, bMax, Some minDist)
            else (aMid, aMax, bMid, bMax, Some minDist)))"

text \<open>
  The loop. It need not end for every tolerance (a tolerance that is not positive never
  lets it stop on a rectangle of positive width), so not returning is the value \<open>None\<close>.
\<close>

partial_function (option) narrow_loop ::
  "Bezier \<Rightarrow> Bezier \<Rightarrow> real \<Rightarrow> narrow_state \<Rightarrow> narrow_state option" where
  "narrow_loop pointsA pointsB tollerance st =
     (if narrow_cond tollerance st
      then narrow_loop pointsA pointsB tollerance (narrow_body pointsA pointsB st)
      else Some st)"

text \<open>
  The third entry of a solution is a distance, or \<open>float('inf')\<close> once the
  deduplication has discarded the solution.
\<close>

datatype pyfloat = Finite real | PosInf

fun pyfloat_less :: "pyfloat \<Rightarrow> pyfloat \<Rightarrow> bool" where
  "pyfloat_less (Finite x) (Finite y) = (x < y)"
| "pyfloat_less (Finite x) PosInf = True"
| "pyfloat_less PosInf y = False"

type_synonym solution = "real \<times> real \<times> pyfloat"

text \<open>
  The result is \<open>None\<close> when the loop does not return,
  \<open>Some (Inl UnboundLocalError)\<close> when it returns without having run its body
  (\<open>return [aMin, bMin, minDist]\<close> reads the unbound \<open>minDist\<close>).
\<close>

definition bezierIntersectionNarrowPhase ::
  "candidate \<Rightarrow> Bezier \<Rightarrow> Bezier \<Rightarrow> real \<Rightarrow> (error + solution) option" where
  "bezierIntersectionNarrowPhase broadPhase pointsA pointsB tollerance =
     (case broadPhase of (aMin, aMax, bMin, bMax) \<Rightarrow>
        (case narrow_loop pointsA pointsB tollerance (aMin, aMax, bMin, bMax, None) of
           None \<Rightarrow> None
         | Some (aMin', aMax', bMin', bMax', minDist) \<Rightarrow>
             (case minDist of
                None \<Rightarrow> Some (Inl UnboundLocalError)
              | Some d \<Rightarrow> Some (Inr (aMin', bMin', Finite d)))))"

text \<open>The larger of the two widths of the rectangle of a state.\<close>

definition narrow_width :: "narrow_state \<Rightarrow> real" where
  "narrow_width st = (case st of (aMin, aMax, bMin, bMax, minDist) \<Rightarrow> max (aMax - aMin) (bMax - bMin))"

section \<open>Intersection of two cubics\<close>

text \<open>The first loop of \<open>bezierIntersection\<close>: every candidate is replaced by its refinement.\<close>

fun narrow_all :: "candidate list \<Rightarrow> Bezier \<Rightarrow> Bezier \<Rightarrow> (error + solution list) option" where
  "narrow_all [] pointsA pointsB = Some (Inr [])"
| "narrow_all (c # cs) pointsA pointsB =
     (case bezierIntersectionNarrowPhase c pointsA pointsB 0.000001 of
        None \<Rightarrow> None
      | Some (Inl e) \<Rightarrow> Some (Inl e)
      | Some (Inr s) \<Rightarrow>
          (case narrow_all cs pointsA pointsB of
             None \<Rightarrow> None
           | Some (Inl e) \<Rightarrow> Some (Inl e)
           | Some (Inr ss) \<Rightarrow> Some (Inr (s # ss))))"

text \<open>\<open>solutions[i][2] = float('inf')\<close>.\<close>

definition mark_inf :: "solution list \<Rightarrow> nat \<Rightarrow> solution list" where
  "mark_inf solutions i =
     solutions[i := (fst (solutions ! i), fst (snd (solutions ! i)), PosInf)]"

text \<open>
  The inner loop of the deduplication, over the values of \<open>otherIndex\<close> still to visit;
  all indices come from \<open>range(0, len(solutions))\<close>.
\<close>

fun dedup_inner :: "solution list \<Rightarrow> nat \<Rightarrow> nat list \<Rightarrow> solution list" where
  "dedup_inner solutions index [] = solutions"
| "dedup_inner solutions index (otherIndex # rest) =
     (if snd (snd (solutions ! index)) = PosInf then solutions
      else if index = otherIndex \<or> snd (snd (solutions ! otherIndex)) = PosInf then
        dedup_inner solutions index rest
      else
        (let diffA = fst (solutions ! index) - fst (solutions ! otherIndex);
             diffB = fst (snd (solutions ! index)) - fst (snd (solutions ! otherIndex))
         in if diffA * diffA + diffB * diffB < 0.01 then
              (if pyfloat_less (snd (snd (solutions ! index))) (snd (snd (solutions ! otherIndex)))
               then dedup_inner (mark_inf solutions otherIndex) index rest
               else dedup_inner (mark_inf solutions index) index rest)
            else dedup_inner solutions index rest))"

definition dedup :: "solution list \<Rightarrow> solution list" where
  "dedup solutions =
     foldl (\<lambda>sols index. dedup_inner sols index [0..<length solutions])
       solutions [0..<length solutions]"

text \<open>The last loop: the solutions closer than the tolerance are appended to both lists.\<close>

fun collect :: "solution list \<Rightarrow> real \<Rightarrow> real list \<times> real list \<Rightarrow> real list \<times> real list" where
  "collect [] tollerance params = params"
| "collect (solution # rest) tollerance params =
     (if pyfloat_less (snd (snd solution)) (Finite tollerance)
      then collect rest tollerance (fst params @ [fst solution], snd params @ [fst (snd solution)])
      else collect rest tollerance params)"

text \<open>The solutions after the refinement and the deduplication, before the filter.\<close>

definition refined_solutions :: "Bezier \<Rightarrow> Bezier \<Rightarrow> (error + solution list) option" where
  "refined_solutions pointsA pointsB =
     (case bezierIntersectionBroadPhase [] 8 pointsA pointsB 0.0 1.0 0.0 1.0 0.001 of
        Inl e \<Rightarrow> Some (Inl e)
      | Inr solutions \<Rightarrow>
          (case narrow_all solutions pointsA pointsB of
             None \<Rightarrow> None
           | Some (Inl e) \<Rightarrow> Some (Inl e)
           | Some (Inr solutions') \<Rightarrow> Some (Inr (dedup solutions'))))"

text \<open>
  \<open>paramsA\<close> and \<open>paramsB\<close> are lists of the caller, extended and sorted in place;
  the function returns them.
\<close>

definition bezierIntersection ::
  "Bezier \<Rightarrow> Bezier \<Rightarrow> real list \<Rightarrow> real list \<Rightarrow> real
     \<Rightarrow> (error + real list \<times> real list) option" where
  "bezierIntersection pointsA pointsB paramsA paramsB tollerance =
     (case refined_solutions pointsA pointsB of
        None \<Rightarrow> None
      | Some (Inl e) \<Rightarrow> Some (Inl e)
      | Some (Inr solutions) \<Rightarrow>
          (let params = collect solutions tollerance (paramsA, paramsB)
           in Some (Inr (sort (fst params), sort (snd params)))))"

section \<open>Reference definitions and example inputs\<close>

text \<open>
  The broad phase as the specification words it: the tolerance of the call is the
  tolerance of the overlap test at every level, so the four recursive calls pass it on.
\<close>

fun spec_broadPhase ::
  "candidate list \<Rightarrow> nat \<Rightarrow> Bezier \<Rightarrow> Bezier \<Rightarrow> real \<Rightarrow> real \<Rightarrow> real \<Rightarrow> real \<Rightarrow> real
     \<Rightarrow> error + candidate list" where
  "spec_broadPhase solutions depth pointsA pointsB aMin aMax bMin bMax tollerance =
     (case aabbOfPoints (points_list (bezierSliceFromTo pointsA aMin aMax)) of
        Inl e \<Rightarrow> Inl e
      | Inr boxA \<Rightarrow>
     (case aabbOfPoints (points_list (bezierSliceFromTo pointsB bMin bMax)) of
        Inl e \<Rightarrow> Inl e
      | Inr boxB \<Rightarrow>
     if aabbIntersectionTest boxA boxB tollerance = False then Inr solutions
     else
       (case depth of
          0 \<Rightarrow> Inr (solutions @ [(aMin, aMax, bMin, bMax)])
        | Suc depth' \<Rightarrow>
            (let aMid = (aMin + aMax) * 0.5;
                 bMid = (bMin + bMax) * 0.5
             in case spec_broadPhase solutions depth' pointsA pointsB
                       aMin aMid bMin bMid tollerance of
                  Inl e \<Rightarrow> Inl e
                | Inr s1 \<Rightarrow>
               (case spec_broadPhase s1 depth' pointsA pointsB
                       aMin aMid bMid bMax tollerance of
                  Inl e \<Rightarrow> Inl e
                | Inr s2 \<Rightarrow>
               (case spec_broadPhase s2 depth' pointsA pointsB
                       aMid aMax bMin bMid tollerance of
                  Inl e \<Rightarrow> Inl e
                | Inr s3 \<Rightarrow>
                  spec_broadPhase s3 depth' pointsA pointsB
                       aMid aMax bMid bMax tollerance))))))"

declare spec_broadPhase.simps [simp del]

text \<open>
  The composite trapezoidal rule with \<open>n\<close> equal subintervals of \<open>[a, b]\<close>: the two
  end points weigh one half, the \<open>n - 1\<close> interior points weigh one, and the sum is
  multiplied by the width \<open>(b - a) / n\<close> of a subinterval.
\<close>

definition spec_trapezoid :: "(real \<Rightarrow> real) \<Rightarrow> real \<Rightarrow> real \<Rightarrow> nat \<Rightarrow> real" where
  "spec_trapezoid f a b n =
     (b - a) / real n
       * (f a / 2 + sum_list (map (\<lambda>i. f (a + (b - a) * real i / real n)) [1..<n]) + f b / 2)"

text \<open>The arc length as the specification words it: the rule applied to the length of the tangent.\<close>

definition spec_arcLength :: "Bezier \<Rightarrow> real \<Rightarrow> real \<Rightarrow> nat \<Rightarrow> real" where
  "spec_arcLength curve tMin tMax samples =
     spec_trapezoid (\<lambda>t. vlength (bezierTangentAt curve t)) tMin tMax samples"

text \<open>Two parallel straight segments of length 3, written as cubics, half a unit apart.\<close>

definition lineA :: Bezier where
  "lineA = Bezier (Vector 0 0 0) (Vector 1 0 0) (Vector 2 0 0) (Vector 3 0 0)"

definition lineB :: Bezier where
  "lineB = Bezier (Vector 0 (1/2) 0) (Vector 1 (1/2) 0) (Vector 2 (1/2) 0) (Vector 3 (1/2) 0)"



text \<open>The pruning test of the broad phase: do the boxes of the two slices overlap?\<close>

definition slices_overlap :: "Bezier \<Rightarrow> Bezier \<Rightarrow> real \<Rightarrow> real \<Rightarrow> real \<Rightarrow> real \<Rightarrow> real \<Rightarrow> bool" where
  "slices_overlap pointsA pointsB aMin aMax bMin bMax tollerance =
     (case aabbOfPoints (points_list (bezierSliceFromTo pointsA aMin aMax)) of
        Inl e \<Rightarrow> False
      | Inr boxA \<Rightarrow>
     (case aabbOfPoints (points_list (bezierSliceFromTo pointsB bMin bMax)) of
        Inl e \<Rightarrow> False
      | Inr boxB \<Rightarrow> aabbIntersectionTest boxA boxB tollerance))"

text \<open>
  A candidate of depth \<open>d\<close> below the rectangle \<open>[aMin, aMax] \<times> [bMin, bMax]\<close>: it lies
  in the rectangle and its widths are those of the rectangle halved \<open>d\<close> times.
\<close>

definition cand_ok :: "real \<Rightarrow> real \<Rightarrow> real \<Rightarrow> real \<Rightarrow> nat \<Rightarrow> candidate \<Rightarrow> bool" where
  "cand_ok aMin aMax bMin bMax d c =
     (case c of (a0, a1, b0, b1) \<Rightarrow>
        a1 - a0 = (aMax - aMin) / 2 ^ d \<and> b1 - b0 = (bMax - bMin) / 2 ^ d
        \<and> aMin \<le> a0 \<and> a1 \<le> aMax \<and> bMin \<le> b0 \<and> b1 \<le> bMax)"

text \<open>The rectangle of a state lies in a candidate.\<close>

definition narrow_inside :: "candidate \<Rightarrow> narrow_state \<Rightarrow> bool" where
  "narrow_inside c st =
     (case c of (aMin, aMax, bMin, bMax) \<Rightarrow>
        (case st of (a0, a1, b0, b1, minDist) \<Rightarrow>
           aMin \<le> a0 \<and> a0 \<le> a1 \<and> a1 \<le> aMax \<and> bMin \<le> b0 \<and> b0 \<le> b1 \<and> b1 \<le> bMax))"

text \<open>Both parameters of a solution lie in \<open>[0, 1]\<close>.\<close>

definition unit_solution :: "solution \<Rightarrow> bool" where
  "unit_solution s = (0 \<le> fst s \<and> fst s \<le> 1 \<and> 0 \<le> fst (snd s) \<and> fst (snd s) \<le> 1)"

text \<open>The two parameters of a solution.\<close>

definition params_of :: "solution \<Rightarrow> real \<times> real" where
  "params_of s = (fst s, fst (snd s))"











section \<open>Properties\<close>

lemma smul_one [simp]: "smul 1 v = v"
  by (simp add: smul_def)

lemma smul_zero [simp]: "smul 0 v = Vector 0 0 0"
  by (simp add: smul_def)

lemma Vector_add_zero [simp]: "v + Vector 0 0 0 = v"
  by (simp add: plus_Vector_def)

lemma Vector_zero_add [simp]: "Vector 0 0 0 + v = v"
  by (simp add: plus_Vector_def)

lemma Vector_add_diff_cancel: "(a::Vector) + (b - a) = b"
  by (simp add: plus_Vector_def minus_Vector_def)

lemma Vector_diff_diff_cancel: "(a::Vector) - (a - b) = b"
  by (simp add: minus_Vector_def)

subsection \<open>The slice from 0 to 1\<close>

text \<open>In exact arithmetic the slice from 0 to 1 is the cubic itself.\<close>

lemma bezierSliceFromTo_exact_identity:
  "bezierSliceFromTo (Bezier p0 p1 p2 p3) 0 1 = Bezier p0 p1 p2 p3"
  by (simp add: bezierSliceFromTo_def bezierPointAt_def bezierTangentAt_def Let_def
      Vector_add_diff_cancel Vector_diff_diff_cancel)

lemma bezierSliceFromTo_fl_exact:
  "bezierSliceFromTo_fl (\<lambda>x. x) (\<lambda>x. x) c a b = bezierSliceFromTo c a b"
  by (simp add: bezierSliceFromTo_fl_def bezierSliceFromTo_def bezierPointAt_fl_def
      bezierPointAt_def bezierTangentAt_fl_def bezierTangentAt_def vadd_fl_def vsub_fl_def
      smul_fl_def smul_def plus_Vector_def minus_Vector_def Let_def)













subsection \<open>Evaluation on concrete inputs\<close>

lemma vget_numeral [simp]: "vget v 1 = vy v" "vget v 2 = vz v"
  by (simp_all add: numeral_2_eq_2)

lemma vset_numeral [simp]:
  "vset v 1 r = Vector (vx v) r (vz v)" "vset v 2 r = Vector (vx v) (vy v) r"
  by (simp_all add: numeral_2_eq_2)

lemmas eval_defs = aabbOfPoints_def points_list_def bezierSliceFromTo_def bezierPointAt_def
  bezierTangentAt_def aabb_point_def aabb_axis_def aabbIntersectionTest_def smul_def
  plus_Vector_def minus_Vector_def Let_def

lemma lineA_box:
  "aabbOfPoints (points_list (bezierSliceFromTo lineA 0 1)) =
     Inr \<lparr>center = Vector (3/2) 0 0, dimensions = Vector 3 0 0\<rparr>"
  by (simp add: eval_defs lineA_def)

lemma lineB_box:
  "aabbOfPoints (points_list (bezierSliceFromTo lineB 0 1)) =
     Inr \<lparr>center = Vector (3/2) (1/2) 0, dimensions = Vector 3 0 0\<rparr>"
  by (simp add: eval_defs lineB_def)

lemma lines_pruned:
  "bezierIntersectionBroadPhase s 0 lineA lineB 0 (1/2) 0 (1/2) (1/1000) = Inr s"
  "bezierIntersectionBroadPhase s 0 lineA lineB 0 (1/2) (1/2) 1 (1/1000) = Inr s"
  "bezierIntersectionBroadPhase s 0 lineA lineB (1/2) 1 0 (1/2) (1/1000) = Inr s"
  "bezierIntersectionBroadPhase s 0 lineA lineB (1/2) 1 (1/2) 1 (1/1000) = Inr s"
  by (subst bezierIntersectionBroadPhase.simps, simp add: eval_defs lineA_def lineB_def)+

lemma lines_kept:
  "spec_broadPhase s 0 lineA lineB 0 (1/2) 0 (1/2) 1 = Inr (s @ [(0, 1/2, 0, 1/2)])"
  "spec_broadPhase s 0 lineA lineB 0 (1/2) (1/2) 1 1 = Inr (s @ [(0, 1/2, 1/2, 1)])"
  "spec_broadPhase s 0 lineA lineB (1/2) 1 0 (1/2) 1 = Inr (s @ [(1/2, 1, 0, 1/2)])"
  "spec_broadPhase s 0 lineA lineB (1/2) 1 (1/2) 1 1 = Inr (s @ [(1/2, 1, 1/2, 1)])"
  by (subst spec_broadPhase.simps, simp add: eval_defs lineA_def lineB_def)+

lemma lines_code: "bezierIntersectionBroadPhase [] 1 lineA lineB 0 1 0 1 1 = Inr []"
  by (subst bezierIntersectionBroadPhase.simps)
    (simp add: lineA_box lineB_box lines_pruned aabbIntersectionTest_def Let_def)

lemma lines_spec:
  "spec_broadPhase [] 1 lineA lineB 0 1 0 1 1 =
     Inr [(0, 1/2, 0, 1/2), (0, 1/2, 1/2, 1), (1/2, 1, 0, 1/2), (1/2, 1, 1/2, 1)]"
  by (subst spec_broadPhase.simps)
    (simp add: lineA_box lineB_box lines_kept aabbIntersectionTest_def Let_def)

text \<open>
  C2. The claim: the tolerance given to the broad phase is the tolerance of the overlap test
  at every level of the recursion, so the result is that of a version passing it unchanged
  into the four recursive calls. On the code this fails: called with depth 1 and tolerance
  1 on two parallel segments half a unit apart, the top-level test passes with tolerance 1,
  the four recursive calls run with the default 0.001 and prune every quadrant, and the
  result is empty; the version that passes the tolerance on records all four quadrants.
\<close>

theorem broadPhase_tolerance_not_propagated:
  "bezierIntersectionBroadPhase [] 1 lineA lineB 0 1 0 1 1 = Inr []
   \<and> spec_broadPhase [] 1 lineA lineB 0 1 0 1 1 =
       Inr [(0, 1/2, 0, 1/2), (0, 1/2, 1/2, 1), (1/2, 1, 0, 1/2), (1/2, 1, 1/2, 1)]
   \<and> bezierIntersectionBroadPhase [] 1 lineA lineB 0 1 0 1 1
       \<noteq> spec_broadPhase [] 1 lineA lineB 0 1 0 1 1"
  unfolding lines_code lines_spec by simp

text \<open>
  C3. The claim: the box of a point sequence has the half-extents (max - min) / 2 as its
  dimensions, which is what the overlap test adds up. On the code this fails: the
  dimensions are the full extents max - min (the box of (0,0,0) and (2,0,0) has x-dimension
  2, not 1), and the overlap test, which adds the dimensions of both boxes, accepts at
  tolerance 0 the boxes of the x-ranges [0, 1] and [3/2, 5/2], which are half a unit apart.
\<close>

theorem aabbOfPoints_full_extents:
  "aabbOfPoints [Vector 0 0 0, Vector 2 0 0]
     = Inr \<lparr>center = Vector 1 0 0, dimensions = Vector 2 0 0\<rparr>
   \<and> aabbOfPoints [Vector 0 0 0, Vector 1 0 0]
     = Inr \<lparr>center = Vector (1/2) 0 0, dimensions = Vector 1 0 0\<rparr>
   \<and> aabbOfPoints [Vector (3/2) 0 0, Vector (5/2) 0 0]
     = Inr \<lparr>center = Vector 2 0 0, dimensions = Vector 1 0 0\<rparr>
   \<and> aabbIntersectionTest \<lparr>center = Vector (1/2) 0 0, dimensions = Vector 1 0 0\<rparr>
        \<lparr>center = Vector 2 0 0, dimensions = Vector 1 0 0\<rparr> 0"
  by (simp add: eval_defs)

text \<open>
  C4. The claim: the arc length is the composite trapezoidal rule over [tMin, tMax] with
  \<open>samples\<close> subintervals. On the code this fails: the loop runs \<open>samples + 1\<close> times
  and its first round adds a trapezoid between the value at \<open>t = 1\<close> and the value at
  \<open>beginT\<close>, and the result is scaled by \<open>3 / samples\<close> whatever the width of the
  interval is. For the straight segment of length 3 and one sample the code returns 6 on
  [0, 1] and on [0, 1/2]; the rule gives 1 and 1/2 for the length of the tangent, that is
  3 and 3/2 for the speed, which is three times the tangent.
\<close>

theorem bezierLength_not_trapezoidal:
  "bezierLength lineA 0 1 1 = Inr 6
   \<and> spec_arcLength lineA 0 1 1 = 1
   \<and> bezierLength lineA 0 1 1 \<noteq> Inr (spec_arcLength lineA 0 1 1)
   \<and> bezierLength lineA 0 1 1 \<noteq> Inr (3 * spec_arcLength lineA 0 1 1)
   \<and> bezierLength lineA 0 (1/2) 1 = Inr 6
   \<and> spec_arcLength lineA 0 (1/2) 1 = 1/2"
  by (simp add: bezierLength_def spec_arcLength_def spec_trapezoid_def bezierTangentAt_def
      vlength_def smul_def plus_Vector_def lineA_def dot_def minus_Vector_def Let_def upto.simps)

subsection \<open>The narrow-phase loop\<close>

lemma narrow_cond_width: "narrow_cond tol st \<longleftrightarrow> narrow_width st > tol"
  by (auto simp: narrow_cond_def narrow_width_def split: prod.splits)

lemma narrow_body_cases:
  "case narrow_body A B (aMin, aMax, bMin, bMax, md) of (a0, a1, b0, b1, md') \<Rightarrow>
     md' \<noteq> None
     \<and> ((a0 = aMin \<and> a1 = (aMin + aMax) / 2) \<or> (a0 = (aMin + aMax) / 2 \<and> a1 = aMax))
     \<and> ((b0 = bMin \<and> b1 = (bMin + bMax) / 2) \<or> (b0 = (bMin + bMax) / 2 \<and> b1 = bMax))"
  by (simp add: narrow_body_def Let_def)

lemma narrow_body_width: "narrow_width (narrow_body A B st) = narrow_width st / 2"
proof -
  obtain aMin aMax bMin bMax md where st: "st = (aMin, aMax, bMin, bMax, md)"
    by (cases st) auto
  obtain a0 a1 b0 b1 md' where nb: "narrow_body A B (aMin, aMax, bMin, bMax, md) = (a0, a1, b0, b1, md')"
    by (cases "narrow_body A B (aMin, aMax, bMin, bMax, md)") auto
  from narrow_body_cases[where A=A and B=B and aMin=aMin and aMax=aMax and bMin=bMin and bMax=bMax and md=md] show ?thesis
    unfolding st nb by (auto simp: narrow_width_def max_def field_simps)
qed


lemma narrow_loop_exit: "\<not> narrow_cond tol st \<Longrightarrow> narrow_loop A B tol st = Some st"
  by (subst narrow_loop.simps) simp

lemma narrow_loop_step:
  "narrow_cond tol st \<Longrightarrow> narrow_loop A B tol st = narrow_loop A B tol (narrow_body A B st)"
  by (subst narrow_loop.simps) simp

lemma narrow_loop_fuel:
  assumes "0 < tol"
  shows "narrow_width st \<le> tol * 2 ^ n \<Longrightarrow>
     \<exists>k\<le>n. narrow_loop A B tol st = Some ((narrow_body A B ^^ k) st)
       \<and> \<not> narrow_cond tol ((narrow_body A B ^^ k) st)
       \<and> (\<forall>j<k. narrow_cond tol ((narrow_body A B ^^ j) st))"
proof (induction n arbitrary: st)
  case 0
  then have "\<not> narrow_cond tol st" by (simp add: narrow_cond_width)
  then show ?case by (simp add: narrow_loop_exit)
next
  case (Suc n)
  show ?case
  proof (cases "narrow_cond tol st")
    case False
    then have "narrow_loop A B tol st = Some ((narrow_body A B ^^ 0) st)
       \<and> \<not> narrow_cond tol ((narrow_body A B ^^ 0) st)
       \<and> (\<forall>j<0. narrow_cond tol ((narrow_body A B ^^ j) st))"
      by (simp add: narrow_loop_exit)
    then show ?thesis by blast
  next
    case True
    have "narrow_width (narrow_body A B st) \<le> tol * 2 ^ n"
      using Suc.prems by (simp add: narrow_body_width)
    from Suc.IH[OF this] obtain k where k: "k \<le> n"
      "narrow_loop A B tol (narrow_body A B st) = Some ((narrow_body A B ^^ k) (narrow_body A B st))"
      "\<not> narrow_cond tol ((narrow_body A B ^^ k) (narrow_body A B st))"
      "\<forall>j<k. narrow_cond tol ((narrow_body A B ^^ j) (narrow_body A B st))"
      by blast
    have sw: "\<And>j. (narrow_body A B ^^ j) (narrow_body A B st) = (narrow_body A B ^^ Suc j) st"
      by (simp add: funpow_swap1)
    have "\<forall>j<Suc k. narrow_cond tol ((narrow_body A B ^^ j) st)"
    proof (intro allI impI)
      fix j assume "j < Suc k"
      then show "narrow_cond tol ((narrow_body A B ^^ j) st)"
        using True k(4) sw by (cases j) auto
    qed
    moreover have "narrow_loop A B tol st = Some ((narrow_body A B ^^ Suc k) st)"
      using True k(2) sw by (simp add: narrow_loop_step)
    moreover have "\<not> narrow_cond tol ((narrow_body A B ^^ Suc k) st)"
      using k(3) sw by simp
    ultimately show ?thesis using k(1) by (intro exI[of _ "Suc k"]) simp
  qed
qed

lemma narrow_fuel_bound:
  assumes "0 < tol" "tol < w"
  shows "w \<le> tol * 2 ^ nat \<lceil>log 2 (w / tol)\<rceil>"
proof -
  let ?n = "nat \<lceil>log 2 (w / tol)\<rceil>"
  have pos: "0 < w / tol" using assms by simp
  have "log 2 (w / tol) \<le> real ?n"
    by linarith
  then have "w / tol \<le> 2 powr real ?n"
    using pos by (simp add: log_le_iff)
  then have "w / tol \<le> 2 ^ ?n" by (simp add: powr_realpow)
  then show ?thesis using assms by (simp add: field_simps)
qed

subsection \<open>The shape of the broad-phase result\<close>

lemma aabbOfPoints_points_list: "\<exists>box. aabbOfPoints (points_list c) = Inr box"
  by (simp add: aabbOfPoints_def points_list_def Let_def)

lemma broadPhase_pruned:
  "\<not> slices_overlap A B aMin aMax bMin bMax tol \<Longrightarrow>
   bezierIntersectionBroadPhase sols d A B aMin aMax bMin bMax tol = Inr sols"
proof -
  assume h: "\<not> slices_overlap A B aMin aMax bMin bMax tol"
  obtain boxA where a: "aabbOfPoints (points_list (bezierSliceFromTo A aMin aMax)) = Inr boxA"
    using aabbOfPoints_points_list by blast
  obtain boxB where b: "aabbOfPoints (points_list (bezierSliceFromTo B bMin bMax)) = Inr boxB"
    using aabbOfPoints_points_list by blast
  show ?thesis
    using h by (subst bezierIntersectionBroadPhase.simps) (simp add: slices_overlap_def a b)
qed

lemma broadPhase_leaf:
  "slices_overlap A B aMin aMax bMin bMax tol \<Longrightarrow>
   bezierIntersectionBroadPhase sols 0 A B aMin aMax bMin bMax tol
     = Inr (sols @ [(aMin, aMax, bMin, bMax)])"
proof -
  assume h: "slices_overlap A B aMin aMax bMin bMax tol"
  obtain boxA where a: "aabbOfPoints (points_list (bezierSliceFromTo A aMin aMax)) = Inr boxA"
    using aabbOfPoints_points_list by blast
  obtain boxB where b: "aabbOfPoints (points_list (bezierSliceFromTo B bMin bMax)) = Inr boxB"
    using aabbOfPoints_points_list by blast
  show ?thesis
    using h by (subst bezierIntersectionBroadPhase.simps) (simp add: slices_overlap_def a b)
qed

lemma broadPhase_node:
  "slices_overlap A B aMin aMax bMin bMax tol \<Longrightarrow>
   bezierIntersectionBroadPhase sols (Suc d) A B aMin aMax bMin bMax tol
     = (case bezierIntersectionBroadPhase sols d A B aMin ((aMin + aMax) / 2) bMin ((bMin + bMax) / 2) (1/1000) of
          Inl e \<Rightarrow> Inl e
        | Inr s1 \<Rightarrow>
       (case bezierIntersectionBroadPhase s1 d A B aMin ((aMin + aMax) / 2) ((bMin + bMax) / 2) bMax (1/1000) of
          Inl e \<Rightarrow> Inl e
        | Inr s2 \<Rightarrow>
       (case bezierIntersectionBroadPhase s2 d A B ((aMin + aMax) / 2) aMax bMin ((bMin + bMax) / 2) (1/1000) of
          Inl e \<Rightarrow> Inl e
        | Inr s3 \<Rightarrow>
          bezierIntersectionBroadPhase s3 d A B ((aMin + aMax) / 2) aMax ((bMin + bMax) / 2) bMax (1/1000))))"
proof -
  assume h: "slices_overlap A B aMin aMax bMin bMax tol"
  obtain boxA where a: "aabbOfPoints (points_list (bezierSliceFromTo A aMin aMax)) = Inr boxA"
    using aabbOfPoints_points_list by blast
  obtain boxB where b: "aabbOfPoints (points_list (bezierSliceFromTo B bMin bMax)) = Inr boxB"
    using aabbOfPoints_points_list by blast
  show ?thesis
    using h by (subst bezierIntersectionBroadPhase.simps) (simp add: slices_overlap_def a b Let_def split: sum.splits)
qed

lemma cand_ok_sub:
  assumes "cand_ok a0 a1 b0 b1 d c"
    and "aMin \<le> a0" "a1 \<le> aMax" "bMin \<le> b0" "b1 \<le> bMax"
    and "a1 - a0 = (aMax - aMin) / 2" "b1 - b0 = (bMax - bMin) / 2"
  shows "cand_ok aMin aMax bMin bMax (Suc d) c"
  using assms by (auto simp: cand_ok_def split: prod.splits)

lemma broadPhase_structure:
  "aMin \<le> aMax \<Longrightarrow> bMin \<le> bMax \<Longrightarrow>
   \<exists>new. bezierIntersectionBroadPhase sols d A B aMin aMax bMin bMax tol = Inr (sols @ new)
     \<and> (\<forall>c\<in>set new. cand_ok aMin aMax bMin bMax d c)"
proof (induction d arbitrary: sols aMin aMax bMin bMax tol)
  case 0
  show ?case
  proof (cases "slices_overlap A B aMin aMax bMin bMax tol")
    case True
    then show ?thesis using 0 by (simp add: broadPhase_leaf cand_ok_def)
  next
    case False
    then show ?thesis by (simp add: broadPhase_pruned)
  qed
next
  case (Suc d)
  let ?am = "(aMin + aMax) / 2" and ?bm = "(bMin + bMax) / 2"
  show ?case
  proof (cases "slices_overlap A B aMin aMax bMin bMax tol")
    case False
    then show ?thesis by (simp add: broadPhase_pruned)
  next
    case True
    have le: "aMin \<le> ?am" "?am \<le> aMax" "bMin \<le> ?bm" "?bm \<le> bMax"
      using Suc.prems by simp_all
    from Suc.IH[OF le(1) le(3), of sols "1/1000"] obtain n1 where
      n1: "bezierIntersectionBroadPhase sols d A B aMin ?am bMin ?bm (1/1000) = Inr (sols @ n1)"
        "\<forall>c\<in>set n1. cand_ok aMin ?am bMin ?bm d c" by blast
    from Suc.IH[OF le(1) le(4), of "sols @ n1" "1/1000"] obtain n2 where
      n2: "bezierIntersectionBroadPhase (sols @ n1) d A B aMin ?am ?bm bMax (1/1000) = Inr ((sols @ n1) @ n2)"
        "\<forall>c\<in>set n2. cand_ok aMin ?am ?bm bMax d c" by blast
    from Suc.IH[OF le(2) le(3), of "sols @ n1 @ n2" "1/1000"] obtain n3 where
      n3: "bezierIntersectionBroadPhase (sols @ n1 @ n2) d A B ?am aMax bMin ?bm (1/1000) = Inr ((sols @ n1 @ n2) @ n3)"
        "\<forall>c\<in>set n3. cand_ok ?am aMax bMin ?bm d c" by blast
    from Suc.IH[OF le(2) le(4), of "sols @ n1 @ n2 @ n3" "1/1000"] obtain n4 where
      n4: "bezierIntersectionBroadPhase (sols @ n1 @ n2 @ n3) d A B ?am aMax ?bm bMax (1/1000) = Inr ((sols @ n1 @ n2 @ n3) @ n4)"
        "\<forall>c\<in>set n4. cand_ok ?am aMax ?bm bMax d c" by blast
    have eq: "bezierIntersectionBroadPhase sols (Suc d) A B aMin aMax bMin bMax tol
        = Inr (sols @ (n1 @ n2 @ n3 @ n4))"
      by (simp add: broadPhase_node[OF True] n1(1) n2(1) n3(1) n4(1))
    have "\<forall>c\<in>set (n1 @ n2 @ n3 @ n4). cand_ok aMin aMax bMin bMax (Suc d) c"
    proof
      fix c assume "c \<in> set (n1 @ n2 @ n3 @ n4)"
      then consider "c \<in> set n1" | "c \<in> set n2" | "c \<in> set n3" | "c \<in> set n4" by auto
      then show "cand_ok aMin aMax bMin bMax (Suc d) c"
      proof cases
        case 1 with n1(2) show ?thesis using le by (intro cand_ok_sub[of aMin ?am bMin ?bm]) (auto simp: field_simps)
      next
        case 2 with n2(2) show ?thesis using le by (intro cand_ok_sub[of aMin ?am ?bm bMax]) (auto simp: field_simps)
      next
        case 3 with n3(2) show ?thesis using le by (intro cand_ok_sub[of ?am aMax bMin ?bm]) (auto simp: field_simps)
      next
        case 4 with n4(2) show ?thesis using le by (intro cand_ok_sub[of ?am aMax ?bm bMax]) (auto simp: field_simps)
      qed
    qed
    with eq show ?thesis by blast
  qed
qed

subsection \<open>Results of the narrow phase\<close>

lemma narrow_body_inside: "narrow_inside c st \<Longrightarrow> narrow_inside c (narrow_body A B st)"
proof -
  assume h: "narrow_inside c st"
  obtain aMin aMax bMin bMax md where st: "st = (aMin, aMax, bMin, bMax, md)"
    by (cases st) auto
  obtain a0 a1 b0 b1 md' where nb: "narrow_body A B (aMin, aMax, bMin, bMax, md) = (a0, a1, b0, b1, md')"
    by (cases "narrow_body A B (aMin, aMax, bMin, bMax, md)") auto
  from narrow_body_cases[where A=A and B=B and aMin=aMin and aMax=aMax and bMin=bMin and bMax=bMax and md=md] h
  show ?thesis
    unfolding st nb by (auto simp: narrow_inside_def split: prod.splits)
qed

lemma narrow_funpow_inside:
  "narrow_inside c st \<Longrightarrow> narrow_inside c ((narrow_body A B ^^ k) st)"
  by (induction k) (simp_all add: narrow_body_inside)

lemma narrow_body_minDist: "\<exists>a0 a1 b0 b1 d. narrow_body A B st = (a0, a1, b0, b1, Some d)"
proof -
  obtain aMin aMax bMin bMax md where st: "st = (aMin, aMax, bMin, bMax, md)"
    by (cases st) auto
  obtain a0 a1 b0 b1 md' where nb: "narrow_body A B (aMin, aMax, bMin, bMax, md) = (a0, a1, b0, b1, md')"
    by (cases "narrow_body A B (aMin, aMax, bMin, bMax, md)") auto
  from narrow_body_cases[where A=A and B=B and aMin=aMin and aMax=aMax and bMin=bMin and bMax=bMax and md=md]
  show ?thesis unfolding st nb by auto
qed

lemma narrow_funpow_minDist:
  "0 < k \<Longrightarrow> \<exists>a0 a1 b0 b1 d. (narrow_body A B ^^ k) st = (a0, a1, b0, b1, Some d)"
  by (cases k) (simp_all add: narrow_body_minDist)

lemma narrow_loop_total:
  assumes "0 < tol"
  shows "\<exists>k. narrow_loop A B tol st = Some ((narrow_body A B ^^ k) st)
       \<and> \<not> narrow_cond tol ((narrow_body A B ^^ k) st)
       \<and> (\<forall>j<k. narrow_cond tol ((narrow_body A B ^^ j) st))
       \<and> (if tol < narrow_width st then 0 < k \<and> k \<le> nat \<lceil>log 2 (narrow_width st / tol)\<rceil> else k = 0)"
proof (cases "tol < narrow_width st")
  case True
  from narrow_loop_fuel[OF assms narrow_fuel_bound[OF assms True], of A B]
  obtain k where k: "k \<le> nat \<lceil>log 2 (narrow_width st / tol)\<rceil>"
    "narrow_loop A B tol st = Some ((narrow_body A B ^^ k) st)"
    "\<not> narrow_cond tol ((narrow_body A B ^^ k) st)"
    "\<forall>j<k. narrow_cond tol ((narrow_body A B ^^ j) st)" by blast
  have "k \<noteq> 0"
  proof
    assume "k = 0"
    with k(3) have "\<not> narrow_cond tol st" by simp
    with True show False by (simp add: narrow_cond_width)
  qed
  with k True show ?thesis by auto
next
  case False
  then have "narrow_width st \<le> tol * 2 ^ 0" by simp
  from narrow_loop_fuel[OF assms this, of A B] False show ?thesis by auto
qed

lemma narrowPhase_unbound:
  assumes "aMax - aMin \<le> tol" "bMax - bMin \<le> tol"
  shows "bezierIntersectionNarrowPhase (aMin, aMax, bMin, bMax) A B tol = Some (Inl UnboundLocalError)"
proof -
  have "\<not> narrow_cond tol (aMin, aMax, bMin, bMax, None)"
    using assms by (simp add: narrow_cond_def)
  then show ?thesis
    by (simp add: bezierIntersectionNarrowPhase_def narrow_loop_exit)
qed

lemma narrowPhase_solution:
  assumes "0 < tol" "tol < aMax - aMin \<or> tol < bMax - bMin" "aMin \<le> aMax" "bMin \<le> bMax"
  shows "\<exists>a b d. bezierIntersectionNarrowPhase (aMin, aMax, bMin, bMax) A B tol = Some (Inr (a, b, Finite d))
           \<and> aMin \<le> a \<and> a \<le> aMax \<and> bMin \<le> b \<and> b \<le> bMax"
proof -
  let ?st = "(aMin, aMax, bMin, bMax, None :: real option)"
  have w: "tol < narrow_width ?st" using assms(2) by (auto simp: narrow_width_def)
  from narrow_loop_total[OF assms(1), of A B ?st] w obtain k where
    k: "narrow_loop A B tol ?st = Some ((narrow_body A B ^^ k) ?st)" "0 < k" by auto
  from narrow_funpow_minDist[OF k(2), where A=A and B=B and st="?st"] obtain a0 a1 b0 b1 d where
    r: "(narrow_body A B ^^ k) ?st = (a0, a1, b0, b1, Some d)" by blast
  have "narrow_inside (aMin, aMax, bMin, bMax) ?st"
    using assms(3,4) by (simp add: narrow_inside_def)
  from narrow_funpow_inside[OF this, where A=A and B=B and k=k]
  have "aMin \<le> a0 \<and> a0 \<le> aMax \<and> bMin \<le> b0 \<and> b0 \<le> bMax"
    unfolding r by (simp add: narrow_inside_def)
  moreover have "bezierIntersectionNarrowPhase (aMin, aMax, bMin, bMax) A B tol = Some (Inr (a0, b0, Finite d))"
    by (simp add: bezierIntersectionNarrowPhase_def k(1) r)
  ultimately show ?thesis by blast
qed



subsection \<open>The intersection of two cubics\<close>

lemma cand_ok_unit:
  assumes "cand_ok 0 1 0 1 8 c"
  shows "\<exists>s. bezierIntersectionNarrowPhase c A B (1/1000000) = Some (Inr s) \<and> unit_solution s"
proof -
  obtain a0 a1 b0 b1 where c: "c = (a0, a1, b0, b1)" by (cases c) auto
  from assms have w: "a1 - a0 = 1/256" "b1 - b0 = 1/256" and b: "0 \<le> a0" "a1 \<le> 1" "0 \<le> b0" "b1 \<le> 1"
    by (simp_all add: cand_ok_def c)
  have "\<exists>a b d. bezierIntersectionNarrowPhase (a0, a1, b0, b1) A B (1/1000000) = Some (Inr (a, b, Finite d))
           \<and> a0 \<le> a \<and> a \<le> a1 \<and> b0 \<le> b \<and> b \<le> b1"
    using w by (intro narrowPhase_solution) simp_all
  then show ?thesis using b unfolding c by (fastforce simp: unit_solution_def)
qed

lemma narrow_all_unit:
  "\<forall>c\<in>set cands. cand_ok 0 1 0 1 8 c \<Longrightarrow>
   \<exists>ss. narrow_all cands A B = Some (Inr ss) \<and> length ss = length cands \<and> (\<forall>s\<in>set ss. unit_solution s)"
proof (induction cands)
  case Nil
  then show ?case by simp
next
  case (Cons c cands)
  from Cons.prems cand_ok_unit[of c A B] obtain s where
    s: "bezierIntersectionNarrowPhase c A B (1/1000000) = Some (Inr s)" "unit_solution s" by auto
  from Cons obtain ss where
    ss: "narrow_all cands A B = Some (Inr ss)" "length ss = length cands" "\<forall>s\<in>set ss. unit_solution s" by auto
  have "narrow_all (c # cands) A B = Some (Inr (s # ss))"
    using s(1) ss(1) by simp
  then show ?case using s(2) ss(2,3) by simp
qed

lemma mark_inf_params: "map params_of (mark_inf ss i) = map params_of ss"
proof (cases "i < length ss")
  case True
  then show ?thesis
    by (simp add: mark_inf_def map_update params_of_def list_update_same_conv)
next
  case False
  then show ?thesis by (simp add: mark_inf_def list_update_beyond)
qed

lemma dedup_inner_params: "map params_of (dedup_inner ss i js) = map params_of ss"
  by (induction ss i js rule: dedup_inner.induct) (simp_all add: Let_def mark_inf_params)

lemma foldl_dedup_inner_params:
  "map params_of (foldl (\<lambda>sols index. dedup_inner sols index js) ss is) = map params_of ss"
  by (induction "is" arbitrary: ss) (simp_all add: dedup_inner_params)

lemma dedup_params: "map params_of (dedup ss) = map params_of ss"
  by (simp add: dedup_def foldl_dedup_inner_params)

lemma dedup_unit: "\<forall>s\<in>set ss. unit_solution s \<Longrightarrow> \<forall>s\<in>set (dedup ss). unit_solution s"
proof -
  assume h: "\<forall>s\<in>set ss. unit_solution s"
  have u: "\<And>xs. (\<forall>s\<in>set xs. unit_solution s) \<longleftrightarrow>
      (\<forall>p\<in>set (map params_of xs). 0 \<le> fst p \<and> fst p \<le> 1 \<and> 0 \<le> snd p \<and> snd p \<le> 1)"
    by (auto simp: unit_solution_def params_of_def)
  show ?thesis using h unfolding u dedup_params .
qed

lemma collect_result:
  "collect ss tol (pa, pb) =
     (pa @ map fst (filter (\<lambda>s. pyfloat_less (snd (snd s)) (Finite tol)) ss),
      pb @ map (\<lambda>s. fst (snd s)) (filter (\<lambda>s. pyfloat_less (snd (snd s)) (Finite tol)) ss))"
  by (induction ss arbitrary: pa pb) simp_all

lemma broadPhase_unit:
  "\<exists>cands. bezierIntersectionBroadPhase [] 8 A B 0 1 0 1 (1/1000) = Inr cands
      \<and> (\<forall>c\<in>set cands. cand_ok 0 1 0 1 8 c)"
  using broadPhase_structure[of 0 1 0 1 "[]" 8 A B "1/1000"] by simp

lemma refined_solutions_unit:
  "\<exists>sols. refined_solutions A B = Some (Inr sols) \<and> (\<forall>s\<in>set sols. unit_solution s)"
proof -
  from broadPhase_unit[of A B] obtain cands where
    c: "bezierIntersectionBroadPhase [] 8 A B 0 1 0 1 (1/1000) = Inr cands"
       "\<forall>c\<in>set cands. cand_ok 0 1 0 1 8 c" by blast
  from narrow_all_unit[OF c(2), of A B] obtain ss where
    ss: "narrow_all cands A B = Some (Inr ss)" "\<forall>s\<in>set ss. unit_solution s" by blast
  have "refined_solutions A B = Some (Inr (dedup ss))"
    using c(1) ss(1) by (simp add: refined_solutions_def)
  then show ?thesis using dedup_unit[OF ss(2)] by blast
qed

lemma lines_refined: "refined_solutions lineA lineB = Some (Inr [])"
proof -
  have "\<not> slices_overlap lineA lineB 0 1 0 1 (1/1000)"
    by (simp add: slices_overlap_def lineA_box lineB_box aabbIntersectionTest_def)
  then have "bezierIntersectionBroadPhase [] 8 lineA lineB 0 1 0 1 (1/1000) = Inr []"
    by (rule broadPhase_pruned)
  then show ?thesis by (simp add: refined_solutions_def dedup_def)
qed

text \<open>
  C7. For every two cubics and every tolerance, \<open>bezierIntersection\<close>, called with two
  empty lists, returns (it neither fails nor runs forever) two lists of the same length,
  each sorted in ascending order, with every value in \<open>[0, 1]\<close>; and when no refined
  solution has a distance below the tolerance, both lists are empty.
\<close>

theorem bezierIntersection_output:
  "\<exists>paramsA paramsB sols.
      bezierIntersection A B [] [] tol = Some (Inr (paramsA, paramsB))
    \<and> length paramsA = length paramsB \<and> sorted paramsA \<and> sorted paramsB
    \<and> (\<forall>a\<in>set paramsA. 0 \<le> a \<and> a \<le> 1) \<and> (\<forall>b\<in>set paramsB. 0 \<le> b \<and> b \<le> 1)
    \<and> refined_solutions A B = Some (Inr sols)
    \<and> ((\<forall>s\<in>set sols. \<not> pyfloat_less (snd (snd s)) (Finite tol)) \<longrightarrow> paramsA = [] \<and> paramsB = [])"
proof -
  from refined_solutions_unit[of A B] obtain sols where
    sols: "refined_solutions A B = Some (Inr sols)" "\<forall>s\<in>set sols. unit_solution s" by blast
  let ?F = "filter (\<lambda>s. pyfloat_less (snd (snd s)) (Finite tol)) sols"
  let ?pa = "sort (map fst ?F)" and ?pb = "sort (map (\<lambda>s. fst (snd s)) ?F)"
  have r: "bezierIntersection A B [] [] tol = Some (Inr (?pa, ?pb))"
    by (simp add: bezierIntersection_def sols(1) collect_result Let_def)
  have l: "length ?pa = length ?pb" by simp
  have sa: "sorted ?pa" and sb: "sorted ?pb" by simp_all
  have ua: "\<forall>a\<in>set ?pa. 0 \<le> a \<and> a \<le> 1"
    using sols(2) by (auto simp: unit_solution_def)
  have ub: "\<forall>b\<in>set ?pb. 0 \<le> b \<and> b \<le> 1"
    using sols(2) by (auto simp: unit_solution_def)
  have e: "(\<forall>s\<in>set sols. \<not> pyfloat_less (snd (snd s)) (Finite tol)) \<longrightarrow> ?pa = [] \<and> ?pb = []"
    by (simp add: filter_empty_conv)
  show ?thesis
    apply (rule exI[of _ ?pa], rule exI[of _ ?pb], rule exI[of _ sols])
    apply (insert r l sa sb ua ub sols(1) e)
    apply (intro conjI; assumption)
    done
qed

theorem bezierIntersection_output_witness:
  "bezierIntersection lineA lineB [] [] (1/1000) = Some (Inr ([], []))"
proof -
  from bezierIntersection_output[of lineA lineB "1/1000"] obtain pa pb sols where
    h: "bezierIntersection lineA lineB [] [] (1/1000) = Some (Inr (pa, pb))"
       "refined_solutions lineA lineB = Some (Inr sols)"
       "(\<forall>s\<in>set sols. \<not> pyfloat_less (snd (snd s)) (Finite (1/1000))) \<longrightarrow> pa = [] \<and> pb = []"
    by blast
  from h(2) have "sols = []" by (simp add: lines_refined)
  with h(3) have "pa = [] \<and> pb = []" by simp
  with h(1) show ?thesis by simp
qed

text \<open>
  C10. Entered with a rectangle whose two widths are at most the tolerance, the narrow phase
  skips its loop and fails on the unbound \<open>minDist\<close>. From \<open>bezierIntersection\<close>
  this cannot happen: every candidate of the broad phase of depth 8 on the unit square has
  both widths \<open>1 / 2 ^ 8\<close>, which is above 1e-6, so the narrow phase returns a solution
  for each of them and \<open>bezierIntersection\<close> returns its two lists.
\<close>

theorem narrowPhase_unbound_unreachable:
  "(aMax - aMin \<le> tol \<and> bMax - bMin \<le> tol \<longrightarrow>
      bezierIntersectionNarrowPhase (aMin, aMax, bMin, bMax) A B tol = Some (Inl UnboundLocalError))
   \<and> (\<exists>cands ss. bezierIntersectionBroadPhase [] 8 A B 0 1 0 1 (1/1000) = Inr cands
        \<and> (\<forall>c\<in>set cands. case c of (a0, a1, b0, b1) \<Rightarrow> a1 - a0 = 1 / 2 ^ 8 \<and> b1 - b0 = 1 / 2 ^ 8)
        \<and> (1/1000000 :: real) < 1 / 2 ^ 8
        \<and> (\<forall>c\<in>set cands. \<exists>s. bezierIntersectionNarrowPhase c A B (1/1000000) = Some (Inr s))
        \<and> narrow_all cands A B = Some (Inr ss))
   \<and> (\<exists>r. bezierIntersection A B pa pb tol' = Some (Inr r))"
proof -
  have a: "aMax - aMin \<le> tol \<and> bMax - bMin \<le> tol \<longrightarrow>
      bezierIntersectionNarrowPhase (aMin, aMax, bMin, bMax) A B tol = Some (Inl UnboundLocalError)"
    by (simp add: narrowPhase_unbound)
  from broadPhase_unit[of A B] obtain cands where
    c: "bezierIntersectionBroadPhase [] 8 A B 0 1 0 1 (1/1000) = Inr cands"
       "\<forall>c\<in>set cands. cand_ok 0 1 0 1 8 c" by blast
  from narrow_all_unit[OF c(2), of A B] obtain ss where
    ss: "narrow_all cands A B = Some (Inr ss)" by blast
  have w: "\<forall>c\<in>set cands. case c of (a0, a1, b0, b1) \<Rightarrow> a1 - a0 = 1 / 2 ^ 8 \<and> b1 - b0 = 1 / 2 ^ 8"
    using c(2) by (auto simp: cand_ok_def)
  have n: "\<forall>c\<in>set cands. \<exists>s. bezierIntersectionNarrowPhase c A B (1/1000000) = Some (Inr s)"
    using c(2) cand_ok_unit by blast
  have lt: "(1/1000000 :: real) < 1 / 2 ^ 8" by simp
  have b: "\<exists>cands ss. bezierIntersectionBroadPhase [] 8 A B 0 1 0 1 (1/1000) = Inr cands
        \<and> (\<forall>c\<in>set cands. case c of (a0, a1, b0, b1) \<Rightarrow> a1 - a0 = 1 / 2 ^ 8 \<and> b1 - b0 = 1 / 2 ^ 8)
        \<and> (1/1000000 :: real) < 1 / 2 ^ 8
        \<and> (\<forall>c\<in>set cands. \<exists>s. bezierIntersectionNarrowPhase c A B (1/1000000) = Some (Inr s))
        \<and> narrow_all cands A B = Some (Inr ss)"
    apply (rule exI[of _ cands], rule exI[of _ ss])
    apply (insert c(1) w lt n ss)
    apply (intro conjI; assumption)
    done
  from refined_solutions_unit[of A B] obtain sols where
    "refined_solutions A B = Some (Inr sols)" by blast
  then have r: "\<exists>r. bezierIntersection A B pa pb tol' = Some (Inr r)"
    by (simp add: bezierIntersection_def Let_def)
  from a b r show ?thesis by (intro conjI)
qed

theorem narrowPhase_unbound_unreachable_witness:
  "bezierIntersectionNarrowPhase (0, 0, 0, 0) lineA lineB (1/1000000) = Some (Inl UnboundLocalError)
   \<and> (\<exists>r. bezierIntersection lineA lineB [] [] (1/1000) = Some (Inr r))"
  using narrowPhase_unbound_unreachable[where aMin=0 and aMax=0 and bMin=0 and bMax=0
      and tol="1/1000000" and A=lineA and B=lineB and pa="[]" and pb="[]" and tol'="1/1000"]
  by simp

subsection \<open>The deduplication pass\<close>


lemma mark_inf_length [simp]: "length (mark_inf ss k) = length ss"
  by (simp add: mark_inf_def)




lemma dedup_inner_length [simp]: "length (dedup_inner ss i js) = length ss"
  using dedup_inner_params [of ss i js] by (metis length_map)



declare dedup_inner.simps(2) [simp del]
















subsection \<open>The circle of a triangle\<close>















lemma circum_dist:
  fixes U V W al ga :: real
  assumes D: "D = U * V - W * W" "D \<noteq> 0"
    and al: "al = (U + W) * V / (2 * D)"
    and ga: "ga = (W + V) * U / (2 * D)"
  shows "al * al * U - 2 * al * ga * W + ga * ga * V = U * V * (U + 2 * W + V) / (4 * D)"
proof -
  have "al * al * U - 2 * al * ga * W + ga * ga * V
      = U * V * ((U + W) * (U + W) * V - 2 * (U + W) * (W + V) * W + (W + V) * (W + V) * U)
          / (4 * D * D)"
    using D(2) by (simp add: al ga field_simps)
  also have "(U + W) * (U + W) * V - 2 * (U + W) * (W + V) * W + (W + V) * (W + V) * U
      = D * (U + 2 * W + V)"
    by (simp add: D(1) algebra_simps)
  also have "U * V * (D * (U + 2 * W + V)) / (4 * D * D) = U * V * (U + 2 * W + V) / (4 * D)"
    using D(2) by simp
  finally show ?thesis .
qed









lemma exact_ops:
  "vsub_fl (\<lambda>x. x) u v = u - v" "vadd_fl (\<lambda>x. x) u v = u + v"
  "smul_fl (\<lambda>x. x) k v = smul k v" "cross_fl (\<lambda>x. x) u v = cross u v"
  "dot_fl (\<lambda>x. x) u v = dot u v" "vlength_fl (\<lambda>x. x) v = vlength v"
  "sdiv_fl (\<lambda>x. x) v k = sdiv v k"
  by (simp_all add: vsub_fl_def vadd_fl_def smul_fl_def cross_fl_def dot_fl_def
      vlength_fl_def sdiv_fl_def minus_Vector_def plus_Vector_def smul_def cross_def dot_def
      vlength_def sdiv_def)

lemma circleOfTriangle_fl_exact:
  "circleOfTriangle_fl (\<lambda>x. x) (\<lambda>x. x) a b c = circleOfTriangle a b c"
  unfolding circleOfTriangle_fl_def circleOfTriangle_def exact_ops by (rule refl)



lemmas fl_simps = fl_def fl_exponent.simps round_even_def Let_def

lemma fl_small:
  "fl 24 0 = 0" "fl 24 1 = 1" "fl 24 3 = 3" "fl 24 4 = 4" "fl 24 5 = 5" "fl 24 8 = 8" "fl 24 24 = 24"
  "fl 53 0 = 0" "fl 53 1 = 1" "fl 53 3 = 3" "fl 53 4 = 4" "fl 53 5 = 5" "fl 53 8 = 8" "fl 53 24 = 24"
  by (simp_all add: fl_simps)











end
